theory Spec2Isabelle
  imports Main
begin

section \<open>Python values, dictionaries and exceptions\<close>

text \<open>
  The program (\<^verbatim>\<open>src/sync.py\<close>) works on untyped Python dictionaries whose values come
  from a parsed record file or from the provider's JSON. The scalar values that the record
  format allows are modelled: \<^verbatim>\<open>None\<close>, booleans, unbounded integers and strings.
  Floating-point scalars and nested values are outside the model.
\<close>

datatype pyval = PNone | PBool bool | PInt int | PStr string

text \<open>
  A dictionary with string keys. A key bound to \<^verbatim>\<open>None\<close> is \<open>Some PNone\<close>, an absent key
  is \<open>None\<close>: \<^verbatim>\<open>d[k]\<close> and \<^verbatim>\<open>k in d\<close> tell them apart, \<^verbatim>\<open>d.get(k)\<close> does not.
\<close>

type_synonym pydict = "string \<rightharpoonup> pyval"

text \<open>
  What \<^verbatim>\<open>yaml.safe_load\<close> can return for a whole file: a scalar (an empty file
  loads as \<^verbatim>\<open>None\<close>), a sequence, or a mapping.
\<close>

datatype document = Scalar pyval | Seq "pyval list" | Mapping pydict

text \<open>
  The exceptions the program can meet, all subclasses of Python's \<^verbatim>\<open>Exception\<close>.
  \<open>ValueError\<close> carries its message. \<open>CalledProcessError\<close> is a failed git command,
  \<open>YamlError\<close> a file that does not parse, \<open>OSError\<close> a file that cannot be opened,
  \<open>HTTPError\<close> a failed provider request.
\<close>

datatype error =
    KeyError string
  | TypeError
  | AttributeError
  | IndexError
  | ValueError string
  | CalledProcessError
  | YamlError
  | OSError
  | HTTPError

text \<open>Python's \<^verbatim>\<open>==\<close> on scalars: \<^verbatim>\<open>bool\<close> is a subclass of \<^verbatim>\<open>int\<close>, so \<^verbatim>\<open>True == 1\<close>.\<close>

fun py_eq :: "pyval \<Rightarrow> pyval \<Rightarrow> bool" where
  "py_eq PNone PNone = True"
| "py_eq (PBool a) (PBool b) = (a = b)"
| "py_eq (PBool a) (PInt j) = ((if a then 1 else 0) = j)"
| "py_eq (PInt i) (PBool b) = (i = (if b then 1 else 0))"
| "py_eq (PInt i) (PInt j) = (i = j)"
| "py_eq (PStr s) (PStr t) = (s = t)"
| "py_eq _ _ = False"

text \<open>Truthiness: \<^verbatim>\<open>None\<close>, \<^verbatim>\<open>False\<close>, \<^verbatim>\<open>0\<close> and the empty string are falsy.\<close>

fun truthy :: "pyval \<Rightarrow> bool" where
  "truthy PNone = False"
| "truthy (PBool b) = b"
| "truthy (PInt i) = (i \<noteq> 0)"
| "truthy (PStr s) = (s \<noteq> [])"

text \<open>\<^verbatim>\<open>a or b\<close> evaluates to \<^verbatim>\<open>a\<close> when it is truthy and to \<^verbatim>\<open>b\<close> otherwise.\<close>

definition py_or :: "pyval \<Rightarrow> pyval \<Rightarrow> pyval" where
  "py_or a b = (if truthy a then a else b)"

text \<open>\<^verbatim>\<open>x in [v1, v2, ...]\<close>: some element is equal to \<^verbatim>\<open>x\<close>.\<close>

fun py_in :: "pyval \<Rightarrow> pyval list \<Rightarrow> bool" where
  "py_in x [] = False"
| "py_in x (v # vs) = (py_eq v x \<or> py_in x vs)"

text \<open>\<^verbatim>\<open>d.get(k)\<close>: the value, or \<^verbatim>\<open>None\<close> for an absent key.\<close>

definition dict_get :: "pydict \<Rightarrow> string \<Rightarrow> pyval" where
  "dict_get d k = (case d k of None \<Rightarrow> PNone | Some v \<Rightarrow> v)"

text \<open>\<^verbatim>\<open>d.get(k, default)\<close>: the default only when the key is absent.\<close>

definition dict_get_default :: "pydict \<Rightarrow> string \<Rightarrow> pyval \<Rightarrow> pyval" where
  "dict_get_default d k dflt = (case d k of None \<Rightarrow> dflt | Some v \<Rightarrow> v)"

text \<open>\<^verbatim>\<open>d[k]\<close> on a dictionary raises \<^verbatim>\<open>KeyError\<close> for an absent key.\<close>

definition dict_item :: "pydict \<Rightarrow> string \<Rightarrow> error + pyval" where
  "dict_item d k = (case d k of None \<Rightarrow> Inl (KeyError k) | Some v \<Rightarrow> Inr v)"

text \<open>
  \<^verbatim>\<open>record[k]\<close> with a string key on whatever the file parsed to: only a mapping can be
  subscripted by a string; \<^verbatim>\<open>None\<close>, numbers, strings and lists raise \<^verbatim>\<open>TypeError\<close>.
\<close>

fun doc_item :: "document \<Rightarrow> string \<Rightarrow> error + pyval" where
  "doc_item (Mapping d) k = dict_item d k"
| "doc_item (Scalar v) k = Inl TypeError"
| "doc_item (Seq vs) k = Inl TypeError"

section \<open>The Diff Evaluator: \<^verbatim>\<open>DNSSync.records_differ\<close>\<close>

text \<open>
  One pass of the loop over \<^verbatim>\<open>["content", "ttl", "proxied"]\<close>: both values are
  read with \<^verbatim>\<open>.get\<close>, defaulted according to the field, and compared with \<^verbatim>\<open>!=\<close>.
\<close>

definition field_differs :: "string \<Rightarrow> pydict \<Rightarrow> pydict \<Rightarrow> bool" where
  "field_differs field yaml_record cf_record =
     (let yaml_value = dict_get yaml_record field;
          cf_value = dict_get cf_record field;
          yaml_value = (if field = ''ttl'' then py_or yaml_value (PInt 3600) else yaml_value);
          cf_value = (if field = ''ttl'' then py_or cf_value (PInt 3600) else cf_value);
          yaml_value = (if field = ''proxied''
                        then (if yaml_value \<noteq> PNone then yaml_value else PBool False)
                        else yaml_value);
          cf_value = (if field = ''proxied''
                      then (if cf_value \<noteq> PNone then cf_value else PBool False)
                      else cf_value)
      in \<not> py_eq yaml_value cf_value)"

text \<open>The loop itself: \<open>True\<close> when some pass returned early with \<^verbatim>\<open>True\<close>.\<close>

fun fields_differ :: "string list \<Rightarrow> pydict \<Rightarrow> pydict \<Rightarrow> bool" where
  "fields_differ [] yaml_record cf_record = False"
| "fields_differ (field # fields) yaml_record cf_record =
     (if field_differs field yaml_record cf_record then True
      else fields_differ fields yaml_record cf_record)"

text \<open>
  After the loop, \<^verbatim>\<open>yaml_record["type"]\<close> is subscripted (a \<^verbatim>\<open>KeyError\<close> when the key
  is absent) and, for MX and SRV, the priorities are compared as \<^verbatim>\<open>.get\<close> returns them.
\<close>

definition records_differ :: "pydict \<Rightarrow> pydict \<Rightarrow> error + bool" where
  "records_differ yaml_record cf_record =
     (if fields_differ [''content'', ''ttl'', ''proxied''] yaml_record cf_record then Inr True
      else case dict_item yaml_record ''type'' of
             Inl e \<Rightarrow> Inl e
           | Inr t \<Rightarrow>
               if py_in t [PStr ''MX'', PStr ''SRV'']
               then (if \<not> py_eq (dict_get yaml_record ''priority'') (dict_get cf_record ''priority'')
                     then Inr True else Inr False)
               else Inr False)"

text \<open>
  The specification's description of the verdict, field by field, for comparison with
  the loop above.
\<close>

definition content_differs :: "pydict \<Rightarrow> pydict \<Rightarrow> bool" where
  "content_differs d l = (\<not> py_eq (dict_get d ''content'') (dict_get l ''content''))"

definition ttl_or_default :: "pydict \<Rightarrow> pyval" where
  "ttl_or_default r = (if truthy (dict_get r ''ttl'') then dict_get r ''ttl'' else PInt 3600)"

definition ttl_differs :: "pydict \<Rightarrow> pydict \<Rightarrow> bool" where
  "ttl_differs d l = (\<not> py_eq (ttl_or_default d) (ttl_or_default l))"

definition proxied_or_default :: "pydict \<Rightarrow> pyval" where
  "proxied_or_default r = (if dict_get r ''proxied'' = PNone then PBool False else dict_get r ''proxied'')"

definition proxied_differs :: "pydict \<Rightarrow> pydict \<Rightarrow> bool" where
  "proxied_differs d l = (\<not> py_eq (proxied_or_default d) (proxied_or_default l))"

definition priority_differs :: "pydict \<Rightarrow> pydict \<Rightarrow> bool" where
  "priority_differs d l = (\<not> py_eq (dict_get d ''priority'') (dict_get l ''priority''))"

definition is_mx_or_srv :: "pyval \<Rightarrow> bool" where
  "is_mx_or_srv t = (t = PStr ''MX'' \<or> t = PStr ''SRV'')"

definition spec_differs :: "pyval \<Rightarrow> pydict \<Rightarrow> pydict \<Rightarrow> bool" where
  "spec_differs t d l =
     (content_differs d l \<or> ttl_differs d l \<or> proxied_differs d l
      \<or> (is_mx_or_srv t \<and> priority_differs d l))"

section \<open>Python string operations\<close>

text \<open>
  A \<open>char\<close> stands for a code point below 256. \<^verbatim>\<open>str.strip()\<close> removes the
  characters for which \<^verbatim>\<open>str.isspace\<close> holds; below 256 these are the following.
\<close>

definition is_space :: "char \<Rightarrow> bool" where
  "is_space c = (c \<in> set [CHR 0x09, CHR 0x0A, CHR 0x0B, CHR 0x0C, CHR 0x0D,
                            CHR 0x1C, CHR 0x1D, CHR 0x1E, CHR 0x1F, CHR 0x20,
                            CHR 0x85, CHR 0xA0])"

definition strip :: "string \<Rightarrow> string" where
  "strip s = rev (dropWhile is_space (rev (dropWhile is_space s)))"

text \<open>
  \<^verbatim>\<open>s.split(sep)\<close> for a one-character separator: the pieces between the separators,
  empty pieces included; the result is never empty.
\<close>

fun split_on :: "char \<Rightarrow> string \<Rightarrow> string list" where
  "split_on sep [] = [[]]"
| "split_on sep (c # s) =
     (if c = sep then [] # split_on sep s
      else (case split_on sep s of
              [] \<Rightarrow> [[c]]
            | piece # pieces \<Rightarrow> (c # piece) # pieces))"

definition startswith :: "string \<Rightarrow> string \<Rightarrow> bool" where
  "startswith s p = (take (length p) s = p)"

definition endswith :: "string \<Rightarrow> string \<Rightarrow> bool" where
  "endswith s p = (length p \<le> length s \<and> drop (length s - length p) s = p)"

text \<open>\<^verbatim>\<open>sub in s\<close> on strings: \<^verbatim>\<open>sub\<close> occurs in \<^verbatim>\<open>s\<close> as a contiguous substring.\<close>

fun contains :: "string \<Rightarrow> string \<Rightarrow> bool" where
  "contains [] sub = (sub = [])"
| "contains (c # s) sub = (startswith (c # s) sub \<or> contains s sub)"

section \<open>The environment of a run\<close>

text \<open>A request sent to the provider: the JSON body, and the record id for update and delete.\<close>

datatype api_call = Create pydict | Update pyval pydict | Delete pyval

text \<open>
  Everything the program reads from outside, as it answers during one run:
  \<^item> \<open>git_diff_parent\<close>: the output of \<^verbatim>\<open>git diff --name-status HEAD~1 HEAD\<close>, or the
    exception \<^verbatim>\<open>subprocess.run\<close> raised;
  \<^item> \<open>git_diff_empty_tree\<close>: the same against the empty tree;
  \<^item> \<open>git_show\<close>: \<^verbatim>\<open>git show HEAD~1:path\<close> followed by \<^verbatim>\<open>yaml.safe_load\<close>;
  \<^item> \<open>read_yaml\<close>: \<^verbatim>\<open>open(path)\<close> followed by \<^verbatim>\<open>yaml.safe_load\<close>;
  \<^item> \<open>list_records\<close>: \<^verbatim>\<open>CloudflareAPI.list_records\<close>;
  \<^item> \<open>provider\<close>: whether a create, update or delete request fails (\<open>Some e\<close>), given
    the requests already sent;
  \<^item> \<open>set_iter\<close>: the order in which a \<^verbatim>\<open>for\<close> loop visits a Python set;
  \<^item> \<open>records_dir\<close>: \<^verbatim>\<open>str(self.records_dir)\<close>.
\<close>

record env =
  git_diff_parent :: "error + string"
  git_diff_empty_tree :: "error + string"
  git_show :: "string \<Rightarrow> error + document"
  read_yaml :: "string \<Rightarrow> error + document"
  list_records :: "error + pydict list"
  provider :: "api_call list \<Rightarrow> api_call \<Rightarrow> error option"
  set_iter :: "string set \<Rightarrow> string list"
  records_dir :: string

section \<open>The Change Classifier: \<^verbatim>\<open>DNSSync.get_changed_files\<close>\<close>

record changes =
  added :: "string set"
  modified :: "string set"
  deleted :: "string set"

text \<open>
  The first git command runs inside \<^verbatim>\<open>try\<close>; only \<^verbatim>\<open>CalledProcessError\<close> is caught,
  and then the comparison against the empty tree is run instead.
\<close>

definition git_diff :: "env \<Rightarrow> error + string" where
  "git_diff e =
     (case git_diff_parent e of
        Inl err \<Rightarrow> (if err = CalledProcessError then git_diff_empty_tree e else Inl err)
      | Inr out \<Rightarrow> Inr out)"

definition report_lines :: "string \<Rightarrow> string list" where
  "report_lines out = split_on (CHR 0x0A) (strip out)"

text \<open>
  The body of the loop over the lines. \<^verbatim>\<open>parts[1]\<close> raises \<^verbatim>\<open>IndexError\<close> when the
  line has no tab.
\<close>

definition classify_line :: "string \<Rightarrow> string \<Rightarrow> changes \<Rightarrow> error + changes" where
  "classify_line dir line chs =
     (if line = [] then Inr chs
      else let parts = split_on (CHR 0x09) line in
        if length parts < 2 then Inl IndexError
        else let status = parts ! 0; filepath = parts ! 1 in
          if \<not> startswith filepath (dir @ ''/'') then Inr chs
          else if \<not> (endswith filepath ''.yaml'' \<or> endswith filepath ''.yml'') then Inr chs
          else if status = ''A'' then Inr (chs\<lparr>added := insert filepath (added chs)\<rparr>)
          else if status = ''M'' then Inr (chs\<lparr>modified := insert filepath (modified chs)\<rparr>)
          else if status = ''D'' then Inr (chs\<lparr>deleted := insert filepath (deleted chs)\<rparr>)
          else Inr chs)"

fun classify_lines :: "string \<Rightarrow> string list \<Rightarrow> changes \<Rightarrow> error + changes" where
  "classify_lines dir [] chs = Inr chs"
| "classify_lines dir (line # lines) chs =
     (case classify_line dir line chs of
        Inl err \<Rightarrow> Inl err
      | Inr chs' \<Rightarrow> classify_lines dir lines chs')"

definition get_changed_files :: "env \<Rightarrow> error + changes" where
  "get_changed_files e =
     (case git_diff e of
        Inl err \<Rightarrow> Inl err
      | Inr out \<Rightarrow>
          classify_lines (records_dir e) (report_lines out)
            \<lparr>added = {}, modified = {}, deleted = {}\<rparr>)"

text \<open>
  The change report read as (status, path) pairs, for stating what the classifier does:
  \<open>listed lines status p\<close> holds when some non-empty line has \<open>status\<close> before its
  first tab and \<open>p\<close> after it; \<open>accepted_path\<close> is the filter on paths.
\<close>

definition listed :: "string list \<Rightarrow> string \<Rightarrow> string \<Rightarrow> bool" where
  "listed lines status p =
     (\<exists>line \<in> set lines. line \<noteq> [] \<and> split_on (CHR 0x09) line ! 0 = status
                          \<and> split_on (CHR 0x09) line ! 1 = p)"

definition accepted_path :: "string \<Rightarrow> string \<Rightarrow> bool" where
  "accepted_path dir p =
     (startswith p (dir @ ''/'') \<and> (endswith p ''.yaml'' \<or> endswith p ''.yml''))"

definition parsable :: "string list \<Rightarrow> bool" where
  "parsable lines = (\<forall>line \<in> set lines. line = [] \<or> CHR 0x09 \<in> set line)"

text \<open>What one line of the report contributes to the set of one status.\<close>

definition line_adds :: "string \<Rightarrow> string \<Rightarrow> string \<Rightarrow> string set" where
  "line_adds dir status line =
     (if line \<noteq> [] \<and> split_on (CHR 0x09) line ! 0 = status
         \<and> accepted_path dir (split_on (CHR 0x09) line ! 1)
      then {split_on (CHR 0x09) line ! 1} else {})"

definition mutually_exclusive :: "changes \<Rightarrow> bool" where
  "mutually_exclusive chs =
     (added chs \<inter> modified chs = {} \<and> added chs \<inter> deleted chs = {}
      \<and> modified chs \<inter> deleted chs = {})"

section \<open>The Record Loader: \<^verbatim>\<open>DNSSync.load_yaml_record\<close>\<close>

text \<open>
  \<^verbatim>\<open>field in record\<close> on whatever was parsed: key membership on a mapping, substring
  on a string, element equality on a list, \<^verbatim>\<open>TypeError\<close> on \<^verbatim>\<open>None\<close> and on numbers.
\<close>

fun doc_contains :: "document \<Rightarrow> string \<Rightarrow> error + bool" where
  "doc_contains (Mapping d) field = Inr (d field \<noteq> None)"
| "doc_contains (Scalar (PStr s)) field = Inr (contains s field)"
| "doc_contains (Scalar v) field = Inl TypeError"
| "doc_contains (Seq vs) field = Inr (py_in (PStr field) vs)"

definition missing_message :: "string \<Rightarrow> string \<Rightarrow> string" where
  "missing_message field filepath =
     ''Missing required field '' @ [CHR 0x27] @ field @ [CHR 0x27] @ '' in '' @ filepath"

fun check_required :: "string list \<Rightarrow> document \<Rightarrow> string \<Rightarrow> error + unit" where
  "check_required [] record filepath = Inr ()"
| "check_required (field # others) record filepath =
     (case doc_contains record field of
        Inl err \<Rightarrow> Inl err
      | Inr present \<Rightarrow>
          if \<not> present then Inl (ValueError (missing_message field filepath))
          else check_required others record filepath)"

definition load_yaml_record :: "env \<Rightarrow> string \<Rightarrow> error + document" where
  "load_yaml_record e filepath =
     (case read_yaml e filepath of
        Inl err \<Rightarrow> Inl err
      | Inr record \<Rightarrow>
          (case check_required [''name'', ''type'', ''content''] record filepath of
             Inl err \<Rightarrow> Inl err
           | Inr _ \<Rightarrow> Inr record))"

section \<open>The Record Matcher: \<^verbatim>\<open>DNSSync.find_matching_record\<close>\<close>

text \<open>
  The subscripts are evaluated in the source's order, and \<^verbatim>\<open>and\<close> evaluates its right
  operand only when the names are equal.
\<close>

fun find_matching_record :: "document \<Rightarrow> pydict list \<Rightarrow> error + pydict option" where
  "find_matching_record yaml_record [] = Inr None"
| "find_matching_record yaml_record (cf_record # cf_records) =
     (case dict_item cf_record ''name'' of
        Inl err \<Rightarrow> Inl err
      | Inr cf_name \<Rightarrow>
     (case doc_item yaml_record ''name'' of
        Inl err \<Rightarrow> Inl err
      | Inr yaml_name \<Rightarrow>
          if py_eq cf_name yaml_name
          then (case dict_item cf_record ''type'' of
                  Inl err \<Rightarrow> Inl err
                | Inr cf_type \<Rightarrow>
               (case doc_item yaml_record ''type'' of
                  Inl err \<Rightarrow> Inl err
                | Inr yaml_type \<Rightarrow>
                    if py_eq cf_type yaml_type then Inr (Some cf_record)
                    else find_matching_record yaml_record cf_records))
          else find_matching_record yaml_record cf_records))"

section \<open>The provider client: \<^verbatim>\<open>CloudflareAPI\<close>\<close>

text \<open>
  The JSON body that \<^verbatim>\<open>create_record\<close> and \<^verbatim>\<open>update_record\<close> build, by the same seven
  lines in both: the three subscripts in the source's order, the two defaults for an
  absent key, and \<^verbatim>\<open>priority\<close> whenever the record has that key.
\<close>

fun request_data :: "document \<Rightarrow> error + pydict" where
  "request_data (Mapping r) =
     (case dict_item r ''type'' of
        Inl err \<Rightarrow> Inl err
      | Inr t \<Rightarrow>
     (case dict_item r ''name'' of
        Inl err \<Rightarrow> Inl err
      | Inr n \<Rightarrow>
     (case dict_item r ''content'' of
        Inl err \<Rightarrow> Inl err
      | Inr c \<Rightarrow>
          let data = [''type'' \<mapsto> t, ''name'' \<mapsto> n, ''content'' \<mapsto> c,
                      ''ttl'' \<mapsto> dict_get_default r ''ttl'' (PInt 3600),
                      ''proxied'' \<mapsto> dict_get_default r ''proxied'' (PBool False)]
          in Inr (case r ''priority'' of
                    None \<Rightarrow> data
                  | Some p \<Rightarrow> data(''priority'' \<mapsto> p)))))"
| "request_data (Scalar v) = Inl TypeError"
| "request_data (Seq vs) = Inl TypeError"

text \<open>
  The state of a run: the requests sent to the provider so far and the lines printed so
  far, both oldest first.
\<close>

datatype message =
    Detecting
  | NoChangesDetected
  | ChangesDetected nat nat nat
  | Fetching
  | Found nat
  | Blank
  | ProcessingDeletion string
  | ProcessingAddition string
  | ProcessingModification string
  | DeletedRecord pyval pyval
  | NotFoundInCloudflare pyval pyval
  | AlreadyExists
  | UpdatedRecord pyval pyval
  | NoChangesNeeded
  | NotFoundWillCreate
  | CreatedRecord pyval pyval
  | ErrorLine error
  | SyncComplete

record run_state =
  calls :: "api_call list"
  printed :: "message list"

definition say :: "message \<Rightarrow> run_state \<Rightarrow> run_state" where
  "say m st = st\<lparr>printed := printed st @ [m]\<rparr>"

text \<open>
  A statement that may raise returns the state it reached and the exception, if any.
  Sending a request records it and asks the environment whether it fails
  (\<^verbatim>\<open>requests\<close> raising, or \<^verbatim>\<open>raise_for_status\<close>, or the response lacking its result).
\<close>

definition send :: "env \<Rightarrow> api_call \<Rightarrow> run_state \<Rightarrow> run_state \<times> error option" where
  "send e call st = (st\<lparr>calls := calls st @ [call]\<rparr>, provider e (calls st) call)"

definition create_record :: "env \<Rightarrow> document \<Rightarrow> run_state \<Rightarrow> run_state \<times> error option" where
  "create_record e record st =
     (case request_data record of
        Inl err \<Rightarrow> (st, Some err)
      | Inr data \<Rightarrow> send e (Create data) st)"

definition update_record :: "env \<Rightarrow> pyval \<Rightarrow> document \<Rightarrow> run_state \<Rightarrow> run_state \<times> error option" where
  "update_record e record_id record st =
     (case request_data record of
        Inl err \<Rightarrow> (st, Some err)
      | Inr data \<Rightarrow> send e (Update record_id data) st)"

definition delete_record :: "env \<Rightarrow> pyval \<Rightarrow> run_state \<Rightarrow> run_state \<times> error option" where
  "delete_record e record_id st = send e (Delete record_id) st"

section \<open>The orchestrator: \<^verbatim>\<open>DNSSync.sync\<close>\<close>

text \<open>
  A result line that names the record: the f-string subscripts \<^verbatim>\<open>yaml_record['name']\<close>
  and \<^verbatim>\<open>yaml_record['type']\<close> before anything is printed.
\<close>

definition say_record :: "(pyval \<Rightarrow> pyval \<Rightarrow> message) \<Rightarrow> document \<Rightarrow> run_state
    \<Rightarrow> run_state \<times> error option" where
  "say_record line yaml_record st =
     (case doc_item yaml_record ''name'' of
        Inl err \<Rightarrow> (st, Some err)
      | Inr n \<Rightarrow>
     (case doc_item yaml_record ''type'' of
        Inl err \<Rightarrow> (st, Some err)
      | Inr t \<Rightarrow> (say (line n t) st, None)))"

text \<open>\<^verbatim>\<open>records_differ\<close> calls \<^verbatim>\<open>.get\<close> on its first argument, which only a mapping has.\<close>

fun doc_records_differ :: "document \<Rightarrow> pydict \<Rightarrow> error + bool" where
  "doc_records_differ (Mapping d) cf_record = records_differ d cf_record"
| "doc_records_differ (Scalar v) cf_record = Inl AttributeError"
| "doc_records_differ (Seq vs) cf_record = Inl AttributeError"

text \<open>
  The statements of the \<^verbatim>\<open>try\<close> block of the deletion loop. The test \<^verbatim>\<open>if cf_record:\<close>
  is the case distinction on the matcher's result: a matched record is a dictionary with a
  \<^verbatim>\<open>name\<close> key and so is truthy.
\<close>

definition deletion_body :: "env \<Rightarrow> pydict list \<Rightarrow> string \<Rightarrow> run_state
    \<Rightarrow> run_state \<times> error option" where
  "deletion_body e cf_records filepath st =
     (case git_show e filepath of
        Inl err \<Rightarrow> (st, Some err)
      | Inr yaml_record \<Rightarrow>
     (case find_matching_record yaml_record cf_records of
        Inl err \<Rightarrow> (st, Some err)
      | Inr (Some cf_record) \<Rightarrow>
          (case dict_item cf_record ''id'' of
             Inl err \<Rightarrow> (st, Some err)
           | Inr record_id \<Rightarrow>
               (case delete_record e record_id st of
                  (st', Some err) \<Rightarrow> (st', Some err)
                | (st', None) \<Rightarrow> say_record DeletedRecord yaml_record st'))
      | Inr None \<Rightarrow> say_record NotFoundInCloudflare yaml_record st))"

text \<open>
  The branch \<^verbatim>\<open>if self.records_differ(...)\<close> with its update call, as it stands in the
  addition loop and again in the modification loop.
\<close>

definition update_if_differs :: "env \<Rightarrow> document \<Rightarrow> pydict \<Rightarrow> run_state
    \<Rightarrow> run_state \<times> error option" where
  "update_if_differs e yaml_record cf_record st =
     (case doc_records_differ yaml_record cf_record of
        Inl err \<Rightarrow> (st, Some err)
      | Inr differs \<Rightarrow>
          if differs
          then (case dict_item cf_record ''id'' of
                  Inl err \<Rightarrow> (st, Some err)
                | Inr record_id \<Rightarrow>
                    (case update_record e record_id yaml_record st of
                       (st', Some err) \<Rightarrow> (st', Some err)
                     | (st', None) \<Rightarrow> say_record UpdatedRecord yaml_record st'))
          else (say NoChangesNeeded st, None))"

text \<open>The create call with its result line, as it stands in both loops.\<close>

definition create_and_say :: "env \<Rightarrow> document \<Rightarrow> run_state \<Rightarrow> run_state \<times> error option" where
  "create_and_say e yaml_record st =
     (case create_record e yaml_record st of
        (st', Some err) \<Rightarrow> (st', Some err)
      | (st', None) \<Rightarrow> say_record CreatedRecord yaml_record st')"

definition addition_body :: "env \<Rightarrow> pydict list \<Rightarrow> string \<Rightarrow> run_state
    \<Rightarrow> run_state \<times> error option" where
  "addition_body e cf_records filepath st =
     (case load_yaml_record e filepath of
        Inl err \<Rightarrow> (st, Some err)
      | Inr yaml_record \<Rightarrow>
     (case find_matching_record yaml_record cf_records of
        Inl err \<Rightarrow> (st, Some err)
      | Inr (Some cf_record) \<Rightarrow>
          update_if_differs e yaml_record cf_record (say AlreadyExists st)
      | Inr None \<Rightarrow> create_and_say e yaml_record st))"

definition modification_body :: "env \<Rightarrow> pydict list \<Rightarrow> string \<Rightarrow> run_state
    \<Rightarrow> run_state \<times> error option" where
  "modification_body e cf_records filepath st =
     (case load_yaml_record e filepath of
        Inl err \<Rightarrow> (st, Some err)
      | Inr yaml_record \<Rightarrow>
     (case find_matching_record yaml_record cf_records of
        Inl err \<Rightarrow> (st, Some err)
      | Inr (Some cf_record) \<Rightarrow> update_if_differs e yaml_record cf_record st
      | Inr None \<Rightarrow> create_and_say e yaml_record (say NotFoundWillCreate st)))"

text \<open>
  One pass of a loop over files: the line that names the file, the \<^verbatim>\<open>try\<close> block with
  its handler \<^verbatim>\<open>except Exception as e: print(Error: e)\<close>, and the empty line.
\<close>

definition process_file :: "message \<Rightarrow> (run_state \<Rightarrow> run_state \<times> error option)
    \<Rightarrow> run_state \<Rightarrow> run_state" where
  "process_file heading body st =
     (case body (say heading st) of
        (st', None) \<Rightarrow> say Blank st'
      | (st', Some err) \<Rightarrow> say Blank (say (ErrorLine err) st'))"

definition process_deletion :: "env \<Rightarrow> pydict list \<Rightarrow> string \<Rightarrow> run_state \<Rightarrow> run_state" where
  "process_deletion e cf_records filepath =
     process_file (ProcessingDeletion filepath) (deletion_body e cf_records filepath)"

definition process_addition :: "env \<Rightarrow> pydict list \<Rightarrow> string \<Rightarrow> run_state \<Rightarrow> run_state" where
  "process_addition e cf_records filepath =
     process_file (ProcessingAddition filepath) (addition_body e cf_records filepath)"

definition process_modification :: "env \<Rightarrow> pydict list \<Rightarrow> string \<Rightarrow> run_state \<Rightarrow> run_state" where
  "process_modification e cf_records filepath =
     process_file (ProcessingModification filepath) (modification_body e cf_records filepath)"

text \<open>The three loops, in the source's order, each over its set in the order Python visits it.\<close>

definition sync_files :: "env \<Rightarrow> changes \<Rightarrow> pydict list \<Rightarrow> run_state \<Rightarrow> run_state" where
  "sync_files e chs cf_records st =
     (let st1 = fold (process_deletion e cf_records) (set_iter e (deleted chs)) st;
          st2 = fold (process_addition e cf_records) (set_iter e (added chs)) st1;
          st3 = fold (process_modification e cf_records) (set_iter e (modified chs)) st2
      in st3)"

text \<open>
  \<^verbatim>\<open>sync\<close> as a whole. \<open>Inl\<close> is an exception that leaves \<^verbatim>\<open>sync\<close> (and makes \<^verbatim>\<open>main\<close>
  print a fatal error and exit with status 1); \<open>Inr\<close> is a normal return. The four lines
  that report the sizes of the sets are one \<open>ChangesDetected\<close> message.
\<close>

definition sync :: "env \<Rightarrow> error + run_state" where
  "sync e =
     (let st = say Detecting \<lparr>calls = [], printed = []\<rparr> in
      case get_changed_files e of
        Inl err \<Rightarrow> Inl err
      | Inr chs \<Rightarrow>
          if added chs = {} \<and> modified chs = {} \<and> deleted chs = {}
          then Inr (say NoChangesDetected st)
          else
            let st = say Blank (say (ChangesDetected (card (added chs)) (card (modified chs))
                                       (card (deleted chs))) st);
                st = say Fetching st
            in case list_records e of
                 Inl err \<Rightarrow> Inl err
               | Inr cf_records \<Rightarrow>
                   let st = say Blank (say (Found (length cf_records)) st);
                       st = sync_files e chs cf_records st
                   in Inr (say SyncComplete st))"

section \<open>Reading the printed lines\<close>

text \<open>The lines that start the processing of a file.\<close>

fun is_heading :: "message \<Rightarrow> bool" where
  "is_heading (ProcessingDeletion p) = True"
| "is_heading (ProcessingAddition p) = True"
| "is_heading (ProcessingModification p) = True"
| "is_heading m = False"

text \<open>
  \<open>extends st st'\<close>: from \<open>st\<close> to \<open>st'\<close> lines were only appended, none of them a
  heading, and requests were only appended.
\<close>

definition extends :: "run_state \<Rightarrow> run_state \<Rightarrow> bool" where
  "extends st st' =
     (\<exists>ms cs. printed st' = printed st @ ms \<and> filter is_heading ms = []
              \<and> calls st' = calls st @ cs)"

text \<open>The state in which the first loop starts: nothing sent, the opening lines printed.\<close>

definition prologue :: "changes \<Rightarrow> pydict list \<Rightarrow> run_state" where
  "prologue chs cf_records =
     \<lparr>calls = [],
      printed = [Detecting,
                 ChangesDetected (card (added chs)) (card (modified chs)) (card (deleted chs)),
                 Blank, Fetching, Found (length cf_records), Blank]\<rparr>"

definition no_changes :: "changes \<Rightarrow> bool" where
  "no_changes chs = (added chs = {} \<and> modified chs = {} \<and> deleted chs = {})"


section \<open>Example records\<close>

text \<open>The records of the specification's scenarios, and an MX pair that differs in priority only.\<close>

definition example_definition :: pydict where
  "example_definition =
     [''name'' \<mapsto> PStr ''api.example.com'', ''type'' \<mapsto> PStr ''A'',
      ''content'' \<mapsto> PStr ''1.2.3.4'']"

definition example_live :: pydict where
  "example_live =
     [''id'' \<mapsto> PStr ''r1'', ''name'' \<mapsto> PStr ''api.example.com'', ''type'' \<mapsto> PStr ''A'',
      ''content'' \<mapsto> PStr ''1.2.3.4'', ''ttl'' \<mapsto> PInt 3600, ''proxied'' \<mapsto> PBool False]"

definition example_mx :: pydict where
  "example_mx =
     [''name'' \<mapsto> PStr ''example.com'', ''type'' \<mapsto> PStr ''MX'',
      ''content'' \<mapsto> PStr ''mail.example.com'', ''priority'' \<mapsto> PInt 10]"

definition example_mx_live :: pydict where
  "example_mx_live =
     [''id'' \<mapsto> PStr ''r2'', ''name'' \<mapsto> PStr ''example.com'', ''type'' \<mapsto> PStr ''MX'',
      ''content'' \<mapsto> PStr ''mail.example.com'', ''ttl'' \<mapsto> PInt 3600,
      ''proxied'' \<mapsto> PBool False]"

text \<open>
  An environment in which nothing has changed, no file can be read and every provider
  request succeeds; the examples below override the parts they need.
\<close>

definition quiet_env :: env where
  "quiet_env =
     \<lparr>git_diff_parent = Inr [], git_diff_empty_tree = Inr [],
      git_show = (\<lambda>p. Inl CalledProcessError), read_yaml = (\<lambda>p. Inl OSError),
      list_records = Inr [], provider = (\<lambda>history call. None),
      set_iter = (\<lambda>S. []), records_dir = ''records''\<rparr>"

text \<open>Live records that differ from \<open>example_live\<close> in the spelling of the name only.\<close>

definition example_live_upper :: pydict where
  "example_live_upper = example_live(''id'' \<mapsto> PStr ''r3'', ''name'' \<mapsto> PStr ''API.example.com'')"

definition example_live_dot :: pydict where
  "example_live_dot = example_live(''id'' \<mapsto> PStr ''r4'', ''name'' \<mapsto> PStr ''api.example.com.'')"

definition example_live_again :: pydict where
  "example_live_again = example_live(''id'' \<mapsto> PStr ''r5'')"

text \<open>
  A directory with five files: the definition of the scenarios; an MX definition without priority, ttl or proxied; a
  definition without content; an empty file; and a file holding one plain string.
\<close>

definition example_mx_bare :: pydict where
  "example_mx_bare =
     [''name'' \<mapsto> PStr ''example.com'', ''type'' \<mapsto> PStr ''MX'',
      ''content'' \<mapsto> PStr ''mail.example.com'']"

definition example_no_content :: pydict where
  "example_no_content = [''name'' \<mapsto> PStr ''www.example.com'', ''type'' \<mapsto> PStr ''A'']"

definition example_files :: "string \<Rightarrow> error + document" where
  "example_files p =
     (if p = ''records/a.yaml'' then Inr (Mapping example_definition)
      else if p = ''records/mx.yaml'' then Inr (Mapping example_mx_bare)
      else if p = ''records/bad.yaml'' then Inr (Mapping example_no_content)
      else if p = ''records/empty.yaml'' then Inr (Scalar PNone)
      else if p = ''records/text.yaml'' then Inr (Scalar (PStr ''name type content''))
      else Inl OSError)"

definition files_env :: env where
  "files_env = quiet_env\<lparr>read_yaml := example_files\<rparr>"



definition broken_report :: string where
  "broken_report =
     ''A'' @ [CHR 0x09] @ ''records/a.yaml'' @ [CHR 0x0A] @ ''records/b.yaml'' @ [CHR 0x0A]"

definition broken_env :: env where
  "broken_env = quiet_env\<lparr>git_diff_parent := Inr broken_report\<rparr>"

definition trailing_space_report :: string where
  "trailing_space_report =
     ''A'' @ [CHR 0x09] @ ''records/x.yaml'' @ [CHR 0x0A] @
     ''M'' @ [CHR 0x09] @ ''records/x.yaml '' @ [CHR 0x0A]"

definition trailing_space_env :: env where
  "trailing_space_env = quiet_env\<lparr>git_diff_parent := Inr trailing_space_report\<rparr>"



text \<open>The scenario of a deleted file whose record the provider does not have.\<close>

definition gone_report :: string where
  "gone_report = ''D'' @ [CHR 0x09] @ ''records/gone.yaml'' @ [CHR 0x0A]"

definition gone_env :: env where
  "gone_env =
     quiet_env\<lparr>git_diff_parent := Inr gone_report,
       git_show := (\<lambda>p. if p = ''records/gone.yaml'' then Inr (Mapping example_mx_bare)
                         else Inl CalledProcessError),
       list_records := Inr [example_live],
       set_iter := (\<lambda>S. if S = {} then [] else [''records/gone.yaml''])\<rparr>"

text \<open>A definition of type A that carries a priority.\<close>

definition example_a_priority :: pydict where
  "example_a_priority = example_definition(''priority'' \<mapsto> PInt 10)"

section \<open>Properties of the Diff Evaluator\<close>

lemma py_eq_refl: "py_eq v v"
  by (cases v) simp_all

lemma py_eq_PStr_left: "py_eq (PStr s) v = (v = PStr s)"
  by (cases v) auto

lemma py_eq_PStr_right: "py_eq v (PStr s) = (v = PStr s)"
  by (cases v) auto

lemma py_eq_PNone_left: "py_eq PNone v = (v = PNone)"
  by (cases v) auto

lemma py_eq_PNone_right: "py_eq v PNone = (v = PNone)"
  by (cases v) auto

lemma py_in_mx_srv: "py_in t [PStr ''MX'', PStr ''SRV''] = is_mx_or_srv t"
  by (auto simp: is_mx_or_srv_def py_eq_PStr_left)

lemma fields_differ_spec:
  "fields_differ [''content'', ''ttl'', ''proxied''] d l =
     (content_differs d l \<or> ttl_differs d l \<or> proxied_differs d l)"
  by (simp add: field_differs_def content_differs_def ttl_differs_def proxied_differs_def
        ttl_or_default_def proxied_or_default_def py_or_def Let_def)

lemma records_differ_spec:
  "d ''type'' = Some t \<Longrightarrow> records_differ d l = Inr (spec_differs t d l)"
  unfolding records_differ_def spec_differs_def fields_differ_spec py_in_mx_srv
  by (simp add: dict_item_def priority_differs_def)

lemma dict_get_upd_other: "k \<noteq> k' \<Longrightarrow> dict_get (d(k' := x)) k = dict_get d k"
  by (simp add: dict_get_def)

lemma spec_differs_priority_irrelevant:
  "\<not> is_mx_or_srv t \<Longrightarrow>
     spec_differs t (d(''priority'' := p)) (l(''priority'' := q)) = spec_differs t d l"
  by (simp add: spec_differs_def content_differs_def ttl_differs_def proxied_differs_def
        ttl_or_default_def proxied_or_default_def dict_get_upd_other)

lemma priority_irrelevant:
  assumes "d ''type'' = Some t" and "\<not> is_mx_or_srv t"
  shows "records_differ (d(''priority'' := p)) (l(''priority'' := q)) = records_differ d l"
proof -
  have "(d(''priority'' := p)) ''type'' = Some t"
    using assms(1) by simp
  then have "records_differ (d(''priority'' := p)) (l(''priority'' := q))
               = Inr (spec_differs t (d(''priority'' := p)) (l(''priority'' := q)))"
    by (rule records_differ_spec)
  also have "\<dots> = Inr (spec_differs t d l)"
    using assms(2) by (simp add: spec_differs_priority_irrelevant)
  also have "\<dots> = records_differ d l"
    using assms(1) by (simp add: records_differ_spec)
  finally show ?thesis .
qed

text \<open>
  Claim C1. For a record definition \<open>d\<close> that has its \<^verbatim>\<open>type\<close> field (bound to \<open>t\<close>) and
  any live record \<open>l\<close>, \<open>records_differ\<close> returns normally and its verdict is true exactly
  when the contents differ, or the ttl values differ after each absent or falsy side is
  replaced by 3600, or the proxied values differ after each absent side is replaced by
  false, or the type is MX or SRV and the priorities differ as they stand. On two string
  contents the comparison is equality of the strings. For MX and SRV, priorities absent
  on both sides do not differ and a priority absent on exactly one side does. For every
  other type, replacing, adding or removing the priority on either side leaves the
  verdict unchanged.
\<close>

theorem records_differ_iff:
  assumes "d ''type'' = Some t"
  shows "records_differ d l = Inr (spec_differs t d l)
       \<and> (\<forall>s s'. d ''content'' = Some (PStr s) \<and> l ''content'' = Some (PStr s')
             \<longrightarrow> content_differs d l = (s \<noteq> s'))
       \<and> (dict_get d ''priority'' = PNone \<and> dict_get l ''priority'' = PNone
             \<longrightarrow> \<not> priority_differs d l)
       \<and> ((dict_get d ''priority'' = PNone) \<noteq> (dict_get l ''priority'' = PNone)
             \<longrightarrow> priority_differs d l)
       \<and> (\<not> is_mx_or_srv t \<longrightarrow>
             (\<forall>p q. records_differ (d(''priority'' := p)) (l(''priority'' := q))
                      = records_differ d l))"
proof (intro conjI)
  show "records_differ d l = Inr (spec_differs t d l)"
    using assms by (rule records_differ_spec)
  show "\<forall>s s'. d ''content'' = Some (PStr s) \<and> l ''content'' = Some (PStr s')
          \<longrightarrow> content_differs d l = (s \<noteq> s')"
    by (auto simp: content_differs_def dict_get_def)
  show "dict_get d ''priority'' = PNone \<and> dict_get l ''priority'' = PNone
          \<longrightarrow> \<not> priority_differs d l"
    by (simp add: priority_differs_def)
  show "(dict_get d ''priority'' = PNone) \<noteq> (dict_get l ''priority'' = PNone)
          \<longrightarrow> priority_differs d l"
    by (auto simp: priority_differs_def py_eq_PNone_left py_eq_PNone_right)
  show "\<not> is_mx_or_srv t \<longrightarrow>
          (\<forall>p q. records_differ (d(''priority'' := p)) (l(''priority'' := q))
                   = records_differ d l)"
    using assms by (auto intro: priority_irrelevant)
qed

theorem records_differ_iff_witness:
  "example_definition ''type'' = Some (PStr ''A'')
   \<and> records_differ example_definition example_live = Inr False
   \<and> records_differ (example_definition(''priority'' := Some (PInt 5))) example_live = Inr False
   \<and> example_mx ''type'' = Some (PStr ''MX'')
   \<and> records_differ example_mx example_mx_live = Inr True
   \<and> priority_differs example_mx example_mx_live"
proof -
  have a: "example_definition ''type'' = Some (PStr ''A'')"
    by (simp add: example_definition_def)
  have m: "example_mx ''type'' = Some (PStr ''MX'')"
    by (simp add: example_mx_def)
  note A = records_differ_iff [where d = example_definition and l = example_live, OF a]
  note M = records_differ_iff [where d = example_mx and l = example_mx_live, OF m]
  have na: "\<not> is_mx_or_srv (PStr ''A'')"
    by (simp add: is_mx_or_srv_def)
  have sa: "\<not> spec_differs (PStr ''A'') example_definition example_live"
    by (simp add: spec_differs_def content_differs_def ttl_differs_def proxied_differs_def
          ttl_or_default_def proxied_or_default_def is_mx_or_srv_def dict_get_def
          example_definition_def example_live_def)
  have pm: "(dict_get example_mx ''priority'' = PNone)
              \<noteq> (dict_get example_mx_live ''priority'' = PNone)"
    by (simp add: dict_get_def example_mx_def example_mx_live_def)
  have pd: "priority_differs example_mx example_mx_live"
    using M pm by blast
  have sm: "spec_differs (PStr ''MX'') example_mx example_mx_live"
    using pd by (simp add: spec_differs_def is_mx_or_srv_def)
  have same: "example_live(''priority'' := None) = example_live"
    by (rule ext) (simp add: example_live_def)
  have "records_differ (example_definition(''priority'' := Some (PInt 5)))
              (example_live(''priority'' := None))
            = records_differ example_definition example_live"
    using A na by blast
  then have pa: "records_differ (example_definition(''priority'' := Some (PInt 5))) example_live
            = records_differ example_definition example_live"
    by (simp only: same)
  have ra: "records_differ example_definition example_live = Inr False"
    using A sa by simp
  have rm: "records_differ example_mx example_mx_live = Inr True"
    using M sm by simp
  show ?thesis
    using a m pa ra rm pd by simp
qed

section \<open>Properties of the Record Matcher\<close>

lemma find_matching_record_find:
  assumes "d ''name'' = Some (PStr n)" and "d ''type'' = Some (PStr t)"
    and "\<forall>r \<in> set snapshot. r ''name'' \<noteq> None \<and> r ''type'' \<noteq> None"
  shows "find_matching_record (Mapping d) snapshot =
           Inr (find (\<lambda>r. r ''name'' = Some (PStr n) \<and> r ''type'' = Some (PStr t)) snapshot)"
  using assms(3)
proof (induction snapshot)
  case Nil
  show ?case by simp
next
  case (Cons r rs)
  from Cons.prems obtain vn vt where r: "r ''name'' = Some vn" "r ''type'' = Some vt"
    by auto
  from Cons.prems have "\<forall>r \<in> set rs. r ''name'' \<noteq> None \<and> r ''type'' \<noteq> None"
    by simp
  then have IH: "find_matching_record (Mapping d) rs =
           Inr (find (\<lambda>r. r ''name'' = Some (PStr n) \<and> r ''type'' = Some (PStr t)) rs)"
    by (rule Cons.IH)
  show ?case
    using r assms(1,2) IH by (simp add: dict_item_def py_eq_PStr_right)
qed

text \<open>A matched live record has a \<^verbatim>\<open>name\<close> key, so it is a non-empty dictionary: the
  test \<^verbatim>\<open>if cf_record:\<close> on the matcher's result only tells a record from \<^verbatim>\<open>None\<close>.\<close>

lemma find_matching_record_Some_name:
  "find_matching_record y snapshot = Inr (Some r) \<Longrightarrow> r ''name'' \<noteq> None"
  by (induction snapshot)
     (auto simp: dict_item_def split: option.splits sum.splits if_splits)

lemma find_matching_record_Some_mapping:
  "find_matching_record y snapshot = Inr (Some r) \<Longrightarrow> \<exists>d. y = Mapping d"
  by (induction snapshot; cases y)
     (auto simp: dict_item_def split: option.splits sum.splits if_splits)

text \<open>
  Claim C4. For a record definition \<open>d\<close> whose name and type are the strings \<open>n\<close> and
  \<open>t\<close>, and a snapshot (a list) in which every live record has a name and a type,
  \<open>find_matching_record\<close> returns normally, and returns the first live record in snapshot
  order whose name is exactly the string \<open>n\<close> and whose type is exactly the string \<open>t\<close>;
  it returns none exactly when no live record of the snapshot has both. The strings are
  compared as they are, with no normalization.
\<close>

theorem find_matching_record_first:
  assumes "d ''name'' = Some (PStr n)" and "d ''type'' = Some (PStr t)"
    and "\<forall>r \<in> set snapshot. r ''name'' \<noteq> None \<and> r ''type'' \<noteq> None"
  shows "find_matching_record (Mapping d) snapshot =
           Inr (find (\<lambda>r. r ''name'' = Some (PStr n) \<and> r ''type'' = Some (PStr t)) snapshot)
       \<and> (find_matching_record (Mapping d) snapshot = Inr None
            \<longleftrightarrow> \<not> (\<exists>r \<in> set snapshot. r ''name'' = Some (PStr n) \<and> r ''type'' = Some (PStr t)))"
proof -
  have eq: "find_matching_record (Mapping d) snapshot =
           Inr (find (\<lambda>r. r ''name'' = Some (PStr n) \<and> r ''type'' = Some (PStr t)) snapshot)"
    using assms by (rule find_matching_record_find)
  show ?thesis
    unfolding eq by (auto simp: find_None_iff)
qed

theorem find_matching_record_first_witness:
  "find_matching_record (Mapping example_definition)
     [example_live_upper, example_mx_live, example_live_dot, example_live, example_live_again]
     = Inr (Some example_live)
   \<and> find_matching_record (Mapping example_definition)
     [example_live_upper, example_mx_live, example_live_dot] = Inr None"
proof -
  have n: "example_definition ''name'' = Some (PStr ''api.example.com'')"
    and t: "example_definition ''type'' = Some (PStr ''A'')"
    by (simp_all add: example_definition_def)
  have keys: "\<forall>r \<in> set [example_live_upper, example_mx_live, example_live_dot, example_live,
                example_live_again]. r ''name'' \<noteq> None \<and> r ''type'' \<noteq> None"
    by (simp add: example_live_upper_def example_live_dot_def example_live_again_def
          example_live_def example_mx_live_def)
  have keys': "\<forall>r \<in> set [example_live_upper, example_mx_live, example_live_dot].
                r ''name'' \<noteq> None \<and> r ''type'' \<noteq> None"
    using keys by simp
  have no: "example_live_upper ''name'' \<noteq> Some (PStr ''api.example.com'')"
    "example_mx_live ''name'' \<noteq> Some (PStr ''api.example.com'')"
    "example_live_dot ''name'' \<noteq> Some (PStr ''api.example.com'')"
    by (simp_all add: example_live_upper_def example_live_dot_def example_mx_live_def)
  have yes: "example_live ''name'' = Some (PStr ''api.example.com'')"
    "example_live ''type'' = Some (PStr ''A'')"
    by (simp_all add: example_live_def)
  show ?thesis
    using find_matching_record_first [OF n t keys] find_matching_record_first [OF n t keys']
      no yes
    by simp
qed

section \<open>Properties of the Record Loader\<close>

lemma check_required_mapping:
  "check_required [''name'', ''type'', ''content''] (Mapping m) filepath =
     (if m ''name'' = None then Inl (ValueError (missing_message ''name'' filepath))
      else if m ''type'' = None then Inl (ValueError (missing_message ''type'' filepath))
      else if m ''content'' = None then Inl (ValueError (missing_message ''content'' filepath))
      else Inr ())"
  by simp

lemma load_yaml_record_mapping:
  assumes "read_yaml e filepath = Inr (Mapping m)"
  shows "load_yaml_record e filepath =
     (if m ''name'' = None then Inl (ValueError (missing_message ''name'' filepath))
      else if m ''type'' = None then Inl (ValueError (missing_message ''type'' filepath))
      else if m ''content'' = None then Inl (ValueError (missing_message ''content'' filepath))
      else Inr (Mapping m))"
  unfolding load_yaml_record_def assms check_required_mapping by simp

text \<open>
  Claim C5. When a record file parses to a mapping \<open>m\<close>, the loader raises the
  validation error (Python's \<^verbatim>\<open>ValueError\<close>) whose message names the first of name,
  type, content that \<open>m\<close> lacks; it raises such an error exactly when one of the three
  is absent, and otherwise returns \<open>m\<close> itself: nothing is required of priority, whatever
  the type, and no absent key is filled in.
\<close>

theorem load_yaml_record_validates:
  assumes "read_yaml e filepath = Inr (Mapping m)"
  shows "load_yaml_record e filepath =
           (if m ''name'' = None then Inl (ValueError (missing_message ''name'' filepath))
            else if m ''type'' = None then Inl (ValueError (missing_message ''type'' filepath))
            else if m ''content'' = None then Inl (ValueError (missing_message ''content'' filepath))
            else Inr (Mapping m))
       \<and> ((\<exists>field \<in> {''name'', ''type'', ''content''}. m field = None
               \<and> load_yaml_record e filepath = Inl (ValueError (missing_message field filepath)))
            \<longleftrightarrow> (m ''name'' = None \<or> m ''type'' = None \<or> m ''content'' = None))
       \<and> (load_yaml_record e filepath = Inr (Mapping m)
            \<longleftrightarrow> (m ''name'' \<noteq> None \<and> m ''type'' \<noteq> None \<and> m ''content'' \<noteq> None))"
  unfolding load_yaml_record_mapping [OF assms] by auto

theorem load_yaml_record_validates_witness:
  "load_yaml_record files_env ''records/mx.yaml'' = Inr (Mapping example_mx_bare)
   \<and> example_mx_bare ''type'' = Some (PStr ''MX'')
   \<and> example_mx_bare ''priority'' = None
   \<and> example_mx_bare ''ttl'' = None
   \<and> example_mx_bare ''proxied'' = None
   \<and> load_yaml_record files_env ''records/bad.yaml''
       = Inl (ValueError (''Missing required field '' @ [CHR 0x27] @ ''content'' @ [CHR 0x27]
                           @ '' in records/bad.yaml''))"
proof -
  have mx: "read_yaml files_env ''records/mx.yaml'' = Inr (Mapping example_mx_bare)"
    by (simp add: files_env_def example_files_def)
  have bad: "read_yaml files_env ''records/bad.yaml'' = Inr (Mapping example_no_content)"
    by (simp add: files_env_def example_files_def)
  show ?thesis
    using load_yaml_record_validates [OF mx] load_yaml_record_validates [OF bad]
    by (simp add: example_mx_bare_def example_no_content_def missing_message_def)
qed

text \<open>
  Claim C10. When a record file parses to something that is not a mapping, validation
  does not report a missing field: on \<^verbatim>\<open>None\<close> the membership test raises
  \<^verbatim>\<open>TypeError\<close>, and a plain string in which \<^verbatim>\<open>name\<close>, \<^verbatim>\<open>type\<close> and \<^verbatim>\<open>content\<close> occur as
  substrings passes validation and is returned as the record.
\<close>

theorem load_yaml_record_not_mapping:
  "(read_yaml e filepath = Inr (Scalar PNone) \<longrightarrow> load_yaml_record e filepath = Inl TypeError)
   \<and> (read_yaml e filepath = Inr (Scalar (PStr s)) \<and> contains s ''name'' \<and> contains s ''type''
        \<and> contains s ''content''
      \<longrightarrow> load_yaml_record e filepath = Inr (Scalar (PStr s)))"
  by (simp add: load_yaml_record_def)

theorem load_yaml_record_not_mapping_witness:
  "load_yaml_record files_env ''records/empty.yaml'' = Inl TypeError
   \<and> load_yaml_record files_env ''records/text.yaml'' = Inr (Scalar (PStr ''name type content''))"
proof -
  have empty: "read_yaml files_env ''records/empty.yaml'' = Inr (Scalar PNone)"
    by (simp add: files_env_def example_files_def)
  have str: "read_yaml files_env ''records/text.yaml'' = Inr (Scalar (PStr ''name type content''))"
    by (simp add: files_env_def example_files_def)
  have sub: "contains ''name type content'' ''name''" "contains ''name type content'' ''type''"
    "contains ''name type content'' ''content''"
    by (simp_all add: startswith_def)
  show ?thesis
    using load_yaml_record_not_mapping [of files_env "''records/empty.yaml''" "''name type content''"]
      load_yaml_record_not_mapping [of files_env "''records/text.yaml''" "''name type content''"]
      empty str sub
    by simp
qed

section \<open>Properties of the Change Classifier\<close>

lemma length_split_on: "length (split_on sep s) = Suc (length (filter (\<lambda>c. c = sep) s))"
  by (induction s) (auto split: list.splits)

lemma split_on_short: "(length (split_on sep s) < 2) = (sep \<notin> set s)"
  by (auto simp: length_split_on filter_empty_conv less_Suc_eq_le numeral_2_eq_2)

lemma classify_line_ok:
  assumes "line = [] \<or> CHR 0x09 \<in> set line"
  shows "\<exists>chs'. classify_line dir line chs = Inr chs'
     \<and> added chs' = added chs \<union> line_adds dir ''A'' line
     \<and> modified chs' = modified chs \<union> line_adds dir ''M'' line
     \<and> deleted chs' = deleted chs \<union> line_adds dir ''D'' line"
  using assms
  by (auto simp: classify_line_def split_on_short line_adds_def accepted_path_def Let_def)

lemma classify_line_fail:
  assumes "line \<noteq> []" and "CHR 0x09 \<notin> set line"
  shows "classify_line dir line chs = Inl IndexError"
  using assms by (simp add: classify_line_def split_on_short)

lemma classify_lines_ok:
  assumes "parsable lines"
  shows "\<exists>chs'. classify_lines dir lines chs = Inr chs'
     \<and> added chs' = added chs \<union> (\<Union>line \<in> set lines. line_adds dir ''A'' line)
     \<and> modified chs' = modified chs \<union> (\<Union>line \<in> set lines. line_adds dir ''M'' line)
     \<and> deleted chs' = deleted chs \<union> (\<Union>line \<in> set lines. line_adds dir ''D'' line)"
  using assms
proof (induction lines arbitrary: chs)
  case Nil
  show ?case by simp
next
  case (Cons line lines)
  from Cons.prems have ok: "line = [] \<or> CHR 0x09 \<in> set line" and rest: "parsable lines"
    by (simp_all add: parsable_def)
  from classify_line_ok [OF ok, of dir chs] obtain c1 where
    c1: "classify_line dir line chs = Inr c1"
      "added c1 = added chs \<union> line_adds dir ''A'' line"
      "modified c1 = modified chs \<union> line_adds dir ''M'' line"
      "deleted c1 = deleted chs \<union> line_adds dir ''D'' line"
    by blast
  from Cons.IH [OF rest, of c1] obtain c2 where
    c2: "classify_lines dir lines c1 = Inr c2"
      "added c2 = added c1 \<union> (\<Union>line \<in> set lines. line_adds dir ''A'' line)"
      "modified c2 = modified c1 \<union> (\<Union>line \<in> set lines. line_adds dir ''M'' line)"
      "deleted c2 = deleted c1 \<union> (\<Union>line \<in> set lines. line_adds dir ''D'' line)"
    by blast
  show ?case
    using c1 c2 by (simp add: Un_assoc)
qed

lemma classify_lines_fail:
  assumes "\<not> parsable lines"
  shows "classify_lines dir lines chs = Inl IndexError"
  using assms
proof (induction lines arbitrary: chs)
  case Nil
  then show ?case by (simp add: parsable_def)
next
  case (Cons line lines)
  show ?case
  proof (cases "line = [] \<or> CHR 0x09 \<in> set line")
    case True
    with Cons.prems have "\<not> parsable lines"
      by (auto simp: parsable_def)
    then have "\<And>c. classify_lines dir lines c = Inl IndexError"
      by (rule Cons.IH)
    moreover from classify_line_ok [OF True, of dir chs] obtain c1 where
      "classify_line dir line chs = Inr c1" by blast
    ultimately show ?thesis by simp
  next
    case False
    then show ?thesis by (simp add: classify_line_fail)
  qed
qed

lemma Union_line_adds:
  "(\<Union>line \<in> set lines. line_adds dir status line)
     = {p. listed lines status p \<and> accepted_path dir p}"
  by (auto simp: line_adds_def listed_def split: if_splits)

lemma get_changed_files_ok:
  assumes "git_diff e = Inr out" and "parsable (report_lines out)"
  shows "\<exists>chs. get_changed_files e = Inr chs
     \<and> added chs = {p. listed (report_lines out) ''A'' p \<and> accepted_path (records_dir e) p}
     \<and> modified chs = {p. listed (report_lines out) ''M'' p \<and> accepted_path (records_dir e) p}
     \<and> deleted chs = {p. listed (report_lines out) ''D'' p \<and> accepted_path (records_dir e) p}"
  using classify_lines_ok [OF assms(2), of "records_dir e"
      "\<lparr>added = {}, modified = {}, deleted = {}\<rparr>"]
  by (simp add: get_changed_files_def assms(1) Union_line_adds)

lemma get_changed_files_fail:
  assumes "git_diff e = Inr out" and "\<not> parsable (report_lines out)"
  shows "get_changed_files e = Inl IndexError"
  by (simp add: get_changed_files_def assms(1) classify_lines_fail [OF assms(2)])






text \<open>
  Claim C8. When the change report has a non-empty line without a tab, so that the line
  is no (status, path) pair, the classifier fails: \<^verbatim>\<open>parts[1]\<close> raises \<^verbatim>\<open>IndexError\<close>,
  which \<open>get_changed_files\<close> does not catch. This exception is the input error of the
  specification.
\<close>

theorem get_changed_files_unparsable:
  assumes "git_diff e = Inr out"
    and "\<exists>line \<in> set (report_lines out). line \<noteq> [] \<and> CHR 0x09 \<notin> set line"
  shows "get_changed_files e = Inl IndexError"
proof -
  from assms(2) have "\<not> parsable (report_lines out)"
    by (auto simp: parsable_def)
  with assms(1) show ?thesis
    by (rule get_changed_files_fail)
qed

theorem get_changed_files_unparsable_witness:
  "get_changed_files broken_env = Inl IndexError"
proof -
  have d: "git_diff broken_env = Inr broken_report"
    by (simp add: git_diff_def broken_env_def quiet_env_def)
  have l: "report_lines broken_report = [''A'' @ [CHR 0x09] @ ''records/a.yaml'', ''records/b.yaml'']"
    by (simp add: report_lines_def broken_report_def strip_def is_space_def)
  have "\<exists>line \<in> set (report_lines broken_report). line \<noteq> [] \<and> CHR 0x09 \<notin> set line"
    unfolding l by simp
  with d show ?thesis
    by (rule get_changed_files_unparsable)
qed

text \<open>
  Two of the sets share a path only when the lines the classifier reads list that path
  under both statuses.
\<close>

lemma changes_share_only_listed_twice:
  assumes "git_diff e = Inr out" and "get_changed_files e = Inr chs"
  shows "(p \<in> added chs \<inter> modified chs) =
           (listed (report_lines out) ''A'' p \<and> listed (report_lines out) ''M'' p
            \<and> accepted_path (records_dir e) p)"
    and "(p \<in> added chs \<inter> deleted chs) =
           (listed (report_lines out) ''A'' p \<and> listed (report_lines out) ''D'' p
            \<and> accepted_path (records_dir e) p)"
    and "(p \<in> modified chs \<inter> deleted chs) =
           (listed (report_lines out) ''M'' p \<and> listed (report_lines out) ''D'' p
            \<and> accepted_path (records_dir e) p)"
proof -
  have "parsable (report_lines out)"
  proof (rule ccontr)
    assume "\<not> parsable (report_lines out)"
    with assms(1) have "get_changed_files e = Inl IndexError"
      by (rule get_changed_files_fail)
    with assms(2) show False by simp
  qed
  with assms(1) obtain chs' where "get_changed_files e = Inr chs'"
    and "added chs' = {p. listed (report_lines out) ''A'' p \<and> accepted_path (records_dir e) p}"
    and "modified chs' = {p. listed (report_lines out) ''M'' p \<and> accepted_path (records_dir e) p}"
    and "deleted chs' = {p. listed (report_lines out) ''D'' p \<and> accepted_path (records_dir e) p}"
    using get_changed_files_ok by blast
  with assms(2) have sets:
    "added chs = {p. listed (report_lines out) ''A'' p \<and> accepted_path (records_dir e) p}"
    "modified chs = {p. listed (report_lines out) ''M'' p \<and> accepted_path (records_dir e) p}"
    "deleted chs = {p. listed (report_lines out) ''D'' p \<and> accepted_path (records_dir e) p}"
    by simp_all
  show "(p \<in> added chs \<inter> modified chs) =
           (listed (report_lines out) ''A'' p \<and> listed (report_lines out) ''M'' p
            \<and> accepted_path (records_dir e) p)"
    unfolding sets by auto
  show "(p \<in> added chs \<inter> deleted chs) =
           (listed (report_lines out) ''A'' p \<and> listed (report_lines out) ''D'' p
            \<and> accepted_path (records_dir e) p)"
    unfolding sets by auto
  show "(p \<in> modified chs \<inter> deleted chs) =
           (listed (report_lines out) ''M'' p \<and> listed (report_lines out) ''D'' p
            \<and> accepted_path (records_dir e) p)"
    unfolding sets by auto
qed

text \<open>
  Claim C9: the three sets of the change set never share a path. In a report that git
  prints every path stands on one line, so the sets could share a path only if the
  classifier read two paths as one, and it does: \<^verbatim>\<open>strip()\<close> is applied to the whole
  output before it is split into lines, and so removes not only the final newline but also
  the space that ends the last path. The report below lists two files, once each; the
  second, whose name ends in a space, does not have an accepted extension and would be
  skipped by the loop on the lines as git printed them. After \<^verbatim>\<open>strip()\<close> it reads as
  the first path, and that path is put into \<open>added\<close> and into \<open>modified\<close>.
\<close>

theorem changes_overlap_after_strip:
  "split_on (CHR 0x0A) trailing_space_report
     = [''A'' @ [CHR 0x09] @ ''records/x.yaml'', ''M'' @ [CHR 0x09] @ ''records/x.yaml '', []]
   \<and> \<not> accepted_path ''records'' ''records/x.yaml ''
   \<and> classify_lines ''records'' (split_on (CHR 0x0A) trailing_space_report)
         \<lparr>added = {}, modified = {}, deleted = {}\<rparr>
       = Inr \<lparr>added = {''records/x.yaml''}, modified = {}, deleted = {}\<rparr>
   \<and> report_lines trailing_space_report
       = [''A'' @ [CHR 0x09] @ ''records/x.yaml'', ''M'' @ [CHR 0x09] @ ''records/x.yaml'']
   \<and> get_changed_files trailing_space_env
       = Inr \<lparr>added = {''records/x.yaml''}, modified = {''records/x.yaml''}, deleted = {}\<rparr>
   \<and> \<not> mutually_exclusive
         \<lparr>added = {''records/x.yaml''}, modified = {''records/x.yaml''}, deleted = {}\<rparr>"
proof -
  have raw: "split_on (CHR 0x0A) trailing_space_report
     = [''A'' @ [CHR 0x09] @ ''records/x.yaml'', ''M'' @ [CHR 0x09] @ ''records/x.yaml '', []]"
    by (simp add: trailing_space_report_def)
  have ext: "\<not> accepted_path ''records'' ''records/x.yaml ''"
    by (simp add: accepted_path_def startswith_def endswith_def)
  have unstripped: "classify_lines ''records'' (split_on (CHR 0x0A) trailing_space_report)
         \<lparr>added = {}, modified = {}, deleted = {}\<rparr>
       = Inr \<lparr>added = {''records/x.yaml''}, modified = {}, deleted = {}\<rparr>"
    unfolding raw
    by (simp add: classify_line_def startswith_def endswith_def Let_def)
  have stripped: "report_lines trailing_space_report
       = [''A'' @ [CHR 0x09] @ ''records/x.yaml'', ''M'' @ [CHR 0x09] @ ''records/x.yaml'']"
    by (simp add: report_lines_def trailing_space_report_def strip_def is_space_def)
  have run: "get_changed_files trailing_space_env
       = Inr \<lparr>added = {''records/x.yaml''}, modified = {''records/x.yaml''}, deleted = {}\<rparr>"
    by (simp add: get_changed_files_def git_diff_def trailing_space_env_def quiet_env_def
          stripped classify_line_def startswith_def endswith_def Let_def)
  have overlap: "\<not> mutually_exclusive
         \<lparr>added = {''records/x.yaml''}, modified = {''records/x.yaml''}, deleted = {}\<rparr>"
    by (simp add: mutually_exclusive_def)
  from raw ext unstripped stripped run overlap show ?thesis
    by blast
qed

section \<open>Properties of the orchestrator\<close>

lemma printed_say [simp]: "printed (say m st) = printed st @ [m]"
  and calls_say [simp]: "calls (say m st) = calls st"
  by (simp_all add: say_def)

lemma extends_refl: "extends st st"
  by (simp add: extends_def)

lemma extends_trans: "extends a b \<Longrightarrow> extends b c \<Longrightarrow> extends a c"
  by (auto simp: extends_def)

lemma extends_say: "\<not> is_heading m \<Longrightarrow> extends st (say m st)"
  by (simp add: extends_def)

lemma extends_say_after: "\<not> is_heading m \<Longrightarrow> extends a b \<Longrightarrow> extends a (say m b)"
  by (auto simp: extends_def)

lemma extends_send: "send e call st = (st', r) \<Longrightarrow> extends st st'"
  by (auto simp: send_def extends_def)

lemma extends_say_record:
  assumes "\<And>n t. \<not> is_heading (line n t)" and "say_record line y st = (st', r)"
  shows "extends st st'"
  using assms
  by (auto simp: say_record_def extends_refl extends_say split: sum.splits)

lemma extends_create_record: "create_record e y st = (st', r) \<Longrightarrow> extends st st'"
  by (auto simp: create_record_def extends_refl split: sum.splits dest: extends_send)

lemma extends_update_record: "update_record e i y st = (st', r) \<Longrightarrow> extends st st'"
  by (auto simp: update_record_def extends_refl split: sum.splits dest: extends_send)

lemma extends_delete_record: "delete_record e i st = (st', r) \<Longrightarrow> extends st st'"
  by (auto simp: delete_record_def dest: extends_send)

lemma extends_create_and_say: "create_and_say e y st = (st', r) \<Longrightarrow> extends st st'"
  unfolding create_and_say_def
  by (auto split: prod.splits option.splits
       dest!: extends_create_record extends_say_record [rotated] intro: extends_trans)

lemma extends_update_if_differs: "update_if_differs e y cf st = (st', r) \<Longrightarrow> extends st st'"
  unfolding update_if_differs_def
  by (auto simp: extends_refl extends_say split: prod.splits option.splits sum.splits if_splits
       dest!: extends_update_record extends_say_record [rotated] intro: extends_trans)

lemma extends_deletion_body: "deletion_body e cf p st = (st', r) \<Longrightarrow> extends st st'"
  unfolding deletion_body_def
  by (auto simp: extends_refl split: prod.splits option.splits sum.splits
       dest!: extends_delete_record extends_say_record [rotated] intro: extends_trans)

lemma extends_from_say: "extends (say m st) st' \<Longrightarrow> \<not> is_heading m \<Longrightarrow> extends st st'"
  by (auto simp: extends_def)

lemma extends_addition_body: "addition_body e cf p st = (st', r) \<Longrightarrow> extends st st'"
  unfolding addition_body_def
  by (auto simp: extends_refl split: option.splits sum.splits
       dest!: extends_update_if_differs extends_create_and_say
       dest: extends_from_say)

lemma extends_modification_body: "modification_body e cf p st = (st', r) \<Longrightarrow> extends st st'"
  unfolding modification_body_def
  by (auto simp: extends_refl split: option.splits sum.splits
       dest!: extends_update_if_differs extends_create_and_say
       dest: extends_from_say)

lemma process_file_printed:
  assumes "\<And>st st' r. body st = (st', r) \<Longrightarrow> extends st st'"
  shows "\<exists>ms cs. printed (process_file heading body st) = printed st @ heading # ms @ [Blank]
           \<and> filter is_heading ms = []
           \<and> calls (process_file heading body st) = calls st @ cs"
proof (cases "body (say heading st)")
  case (Pair st' r)
  from assms [OF Pair] obtain ms cs where
    ms: "printed st' = printed st @ heading # ms" "filter is_heading ms = []"
      "calls st' = calls st @ cs"
    by (auto simp: extends_def)
  show ?thesis
  proof (cases r)
    case None
    with Pair ms show ?thesis by (simp add: process_file_def)
  next
    case (Some err)
    with Pair ms have "printed (process_file heading body st)
          = printed st @ heading # (ms @ [ErrorLine err]) @ [Blank]"
      "filter is_heading (ms @ [ErrorLine err]) = []"
      "calls (process_file heading body st) = calls st @ cs"
      by (simp_all add: process_file_def)
    then show ?thesis by blast
  qed
qed



lemma fold_process_file_printed:
  assumes "\<And>p st st' r. body p st = (st', r) \<Longrightarrow> extends st st'"
  shows "\<exists>ms. printed (fold (\<lambda>p. process_file (heading p) (body p)) ps st) = printed st @ ms"
proof (induction ps arbitrary: st)
  case Nil
  show ?case by simp
next
  case (Cons p ps)
  from process_file_printed [of "body p" "heading p" st] assms(1) obtain ms where
    a: "printed (process_file (heading p) (body p) st) = printed st @ heading p # ms @ [Blank]"
    by blast
  from Cons.IH [of "process_file (heading p) (body p) st"] obtain ms' where
    "printed (fold (\<lambda>p. process_file (heading p) (body p)) ps (process_file (heading p) (body p) st))
      = printed (process_file (heading p) (body p) st) @ ms'"
    by blast
  with a show ?case by simp
qed

lemma process_deletion_fold:
  "fold (process_deletion e cf) ps = fold (\<lambda>p. process_file (ProcessingDeletion p) (deletion_body e cf p)) ps"
  by (rule arg_cong [where f = "\<lambda>f. fold f ps"]) (rule ext, simp add: process_deletion_def)

lemma process_addition_fold:
  "fold (process_addition e cf) ps = fold (\<lambda>p. process_file (ProcessingAddition p) (addition_body e cf p)) ps"
  by (rule arg_cong [where f = "\<lambda>f. fold f ps"]) (rule ext, simp add: process_addition_def)

lemma process_modification_fold:
  "fold (process_modification e cf) ps = fold (\<lambda>p. process_file (ProcessingModification p) (modification_body e cf p)) ps"
  by (rule arg_cong [where f = "\<lambda>f. fold f ps"]) (rule ext, simp add: process_modification_def)





lemma sync_run:
  assumes "get_changed_files e = Inr chs" and "\<not> no_changes chs"
    and "list_records e = Inr cf"
  shows "sync e = Inr (say SyncComplete (sync_files e chs cf (prologue chs cf)))"
  using assms by (auto simp: sync_def no_changes_def prologue_def say_def Let_def)

lemma sync_no_changes:
  assumes "get_changed_files e = Inr chs" and "no_changes chs"
  shows "sync e = Inr \<lparr>calls = [], printed = [Detecting, NoChangesDetected]\<rparr>"
  using assms by (simp add: sync_def no_changes_def say_def Let_def)





lemma process_deletion_not_found:
  assumes "git_show e p = Inr (Mapping d)" and "d ''name'' = Some n" and "d ''type'' = Some t"
    and "find_matching_record (Mapping d) cf = Inr None"
  shows "process_deletion e cf p st
           = st\<lparr>printed := printed st @ [ProcessingDeletion p, NotFoundInCloudflare n t, Blank]\<rparr>"
  using assms
  by (simp add: process_deletion_def process_file_def deletion_body_def say_record_def
        dict_item_def say_def)

lemma fold_process_deletion_printed:
  "\<exists>ms. printed (fold (process_deletion e cf) ps st) = printed st @ ms"
  unfolding process_deletion_fold
  by (rule fold_process_file_printed) (auto dest: extends_deletion_body)

lemma fold_process_addition_printed:
  "\<exists>ms. printed (fold (process_addition e cf) ps st) = printed st @ ms"
  unfolding process_addition_fold
  by (rule fold_process_file_printed) (auto dest: extends_addition_body)

lemma fold_process_modification_printed:
  "\<exists>ms. printed (fold (process_modification e cf) ps st) = printed st @ ms"
  unfolding process_modification_fold
  by (rule fold_process_file_printed) (auto dest: extends_modification_body)

lemma fold_deletions_block:
  assumes "\<And>st. printed (process_deletion e cf p st) = printed st @ block"
    and "p \<in> set ps"
  shows "\<exists>before after. printed (fold (process_deletion e cf) ps st) = before @ block @ after"
proof -
  from assms(2) obtain xs ys where ps: "ps = xs @ p # ys"
    by (auto simp: in_set_conv_decomp)
  let ?a = "fold (process_deletion e cf) xs st"
  obtain ms where "printed (fold (process_deletion e cf) ys (process_deletion e cf p ?a))
                     = printed (process_deletion e cf p ?a) @ ms"
    using fold_process_deletion_printed by blast
  then have "printed (fold (process_deletion e cf) ps st) = printed ?a @ block @ ms"
    by (simp add: ps assms(1))
  then show ?thesis by blast
qed

lemma sync_files_block:
  assumes "\<And>st. printed (process_deletion e cf p st) = printed st @ block"
    and "p \<in> set (set_iter e (deleted chs))"
  shows "\<exists>before after. printed (sync_files e chs cf st) = before @ block @ after"
proof -
  let ?d = "fold (process_deletion e cf) (set_iter e (deleted chs)) st"
  let ?a = "fold (process_addition e cf) (set_iter e (added chs)) ?d"
  let ?m = "fold (process_modification e cf) (set_iter e (modified chs)) ?a"
  from fold_deletions_block [OF assms] obtain before after where
    d: "printed ?d = before @ block @ after" by blast
  obtain ms where a: "printed ?a = printed ?d @ ms"
    using fold_process_addition_printed by blast
  obtain ms' where m: "printed ?m = printed ?a @ ms'"
    using fold_process_modification_printed by blast
  have "printed (sync_files e chs cf st) = before @ block @ (after @ ms @ ms')"
    by (simp add: sync_files_def Let_def d a m)
  then show ?thesis by blast
qed

text \<open>
  Claim C6. Let the last known definition of a deleted file be a mapping with a name and a
  type for which the matcher finds no live record in the snapshot. Then processing the
  file prints its heading, the not-found warning and the empty line, prints no error line
  and sends nothing to the provider. In a run whose deletion loop visits the file,
  \<open>sync\<close> returns normally, these three lines stand together in its output, and the last
  line is the completion line.
\<close>

theorem deletion_without_live_record_warns:
  assumes "git_show e p = Inr (Mapping d)" and "d ''name'' = Some n" and "d ''type'' = Some t"
    and "find_matching_record (Mapping d) cf = Inr None"
  shows "process_deletion e cf p st
           = st\<lparr>printed := printed st @ [ProcessingDeletion p, NotFoundInCloudflare n t, Blank]\<rparr>
     \<and> calls (process_deletion e cf p st) = calls st
     \<and> (get_changed_files e = Inr chs \<and> list_records e = Inr cf \<and> p \<in> deleted chs
          \<and> p \<in> set (set_iter e (deleted chs))
        \<longrightarrow> (\<exists>st' before after. sync e = Inr st'
               \<and> printed st' = before @ [ProcessingDeletion p, NotFoundInCloudflare n t, Blank]
                                 @ after
               \<and> last (printed st') = SyncComplete))"
proof -
  note step = process_deletion_not_found [OF assms]
  have run: "\<exists>st' before after. sync e = Inr st'
               \<and> printed st' = before @ [ProcessingDeletion p, NotFoundInCloudflare n t, Blank]
                                 @ after
               \<and> last (printed st') = SyncComplete"
    if ch: "get_changed_files e = Inr chs" and lr: "list_records e = Inr cf"
      and mem: "p \<in> deleted chs" and vis: "p \<in> set (set_iter e (deleted chs))"
  proof -
    from mem have ne: "\<not> no_changes chs"
      by (auto simp: no_changes_def)
    let ?files = "sync_files e chs cf (prologue chs cf)"
    have s: "sync e = Inr (say SyncComplete ?files)"
      using ch ne lr by (rule sync_run)
    have "\<And>st. printed (process_deletion e cf p st)
            = printed st @ [ProcessingDeletion p, NotFoundInCloudflare n t, Blank]"
      by (simp add: step)
    from sync_files_block [OF this vis] obtain before after where
      "printed ?files = before @ [ProcessingDeletion p, NotFoundInCloudflare n t, Blank] @ after"
      by blast
    then have "printed (say SyncComplete ?files)
          = before @ [ProcessingDeletion p, NotFoundInCloudflare n t, Blank]
              @ (after @ [SyncComplete])"
      by simp
    moreover have "last (printed (say SyncComplete ?files)) = SyncComplete"
      by simp
    ultimately show ?thesis
      using s by blast
  qed
  show ?thesis
    using step run by simp
qed

theorem deletion_without_live_record_warns_witness:
  "process_deletion gone_env [example_live] ''records/gone.yaml'' \<lparr>calls = [], printed = []\<rparr>
     = \<lparr>calls = [],
        printed = [ProcessingDeletion ''records/gone.yaml'',
                   NotFoundInCloudflare (PStr ''example.com'') (PStr ''MX''), Blank]\<rparr>
   \<and> (\<exists>st' before after. sync gone_env = Inr st'
         \<and> printed st' = before @ [ProcessingDeletion ''records/gone.yaml'',
                                    NotFoundInCloudflare (PStr ''example.com'') (PStr ''MX''),
                                    Blank] @ after
         \<and> last (printed st') = SyncComplete)
   \<and> sync gone_env =
       Inr \<lparr>calls = [],
            printed = [Detecting, ChangesDetected 0 0 1, Blank, Fetching, Found 1, Blank,
                       ProcessingDeletion ''records/gone.yaml'',
                       NotFoundInCloudflare (PStr ''example.com'') (PStr ''MX''), Blank,
                       SyncComplete]\<rparr>"
proof -
  let ?chs = "\<lparr>added = {}, modified = {}, deleted = {''records/gone.yaml''}\<rparr>"
  have gs: "git_show gone_env ''records/gone.yaml'' = Inr (Mapping example_mx_bare)"
    by (simp add: gone_env_def quiet_env_def)
  have nm: "example_mx_bare ''name'' = Some (PStr ''example.com'')"
    and ty: "example_mx_bare ''type'' = Some (PStr ''MX'')"
    by (simp_all add: example_mx_bare_def)
  have fm: "find_matching_record (Mapping example_mx_bare) [example_live] = Inr None"
    by (simp add: example_mx_bare_def example_live_def dict_item_def)
  have l: "report_lines gone_report = [''D'' @ [CHR 0x09] @ ''records/gone.yaml'']"
    by (simp add: report_lines_def gone_report_def strip_def is_space_def)
  have ch: "get_changed_files gone_env = Inr ?chs"
    by (simp add: get_changed_files_def git_diff_def gone_env_def quiet_env_def l
          classify_line_def startswith_def endswith_def Let_def)
  have lr: "list_records gone_env = Inr [example_live]"
    by (simp add: gone_env_def quiet_env_def)
  have vis: "''records/gone.yaml'' \<in> set (set_iter gone_env (deleted ?chs))"
    by (simp add: gone_env_def quiet_env_def)
  note T = deletion_without_live_record_warns [OF gs nm ty fm,
      where st = "\<lparr>calls = [], printed = []\<rparr>" and chs = ?chs]
  from T have step: "process_deletion gone_env [example_live] ''records/gone.yaml''
        \<lparr>calls = [], printed = []\<rparr>
     = \<lparr>calls = [],
        printed = [ProcessingDeletion ''records/gone.yaml'',
                   NotFoundInCloudflare (PStr ''example.com'') (PStr ''MX''), Blank]\<rparr>"
    by simp
  from T ch lr vis have run: "\<exists>st' before after. sync gone_env = Inr st'
         \<and> printed st' = before @ [ProcessingDeletion ''records/gone.yaml'',
                                    NotFoundInCloudflare (PStr ''example.com'') (PStr ''MX''),
                                    Blank] @ after
         \<and> last (printed st') = SyncComplete"
    by simp
  have iter: "set_iter gone_env {''records/gone.yaml''} = [''records/gone.yaml'']"
    "set_iter gone_env {} = []"
    by (simp_all add: gone_env_def quiet_env_def)
  have any: "\<And>st. process_deletion gone_env [example_live] ''records/gone.yaml'' st
      = st\<lparr>printed := printed st @ [ProcessingDeletion ''records/gone.yaml'',
            NotFoundInCloudflare (PStr ''example.com'') (PStr ''MX''), Blank]\<rparr>"
    using gs nm ty fm by (rule process_deletion_not_found)
  have whole: "sync gone_env =
       Inr \<lparr>calls = [],
            printed = [Detecting, ChangesDetected 0 0 1, Blank, Fetching, Found 1, Blank,
                       ProcessingDeletion ''records/gone.yaml'',
                       NotFoundInCloudflare (PStr ''example.com'') (PStr ''MX''), Blank,
                       SyncComplete]\<rparr>"
    unfolding sync_def ch
    by (simp add: lr Let_def say_def sync_files_def iter any)
  from step run whole show ?thesis
    by blast
qed

section \<open>Priority in the data sent to the provider\<close>

lemma request_data_priority:
  assumes "d ''type'' = Some t" and "d ''name'' = Some n" and "d ''content'' = Some c"
  shows "\<exists>data. request_data (Mapping d) = Inr data \<and> data ''priority'' = d ''priority''
           \<and> data ''type'' = Some t \<and> data ''name'' = Some n \<and> data ''content'' = Some c"
  using assms by (cases "d ''priority''") (simp_all add: dict_item_def Let_def)

text \<open>
  Claim C7 says that for a type other than MX and SRV the priority is not part of the
  data sent to the provider. Both \<^verbatim>\<open>create_record\<close> and \<^verbatim>\<open>update_record\<close> copy the
  priority whenever the record has the key, without looking at the type: a definition of
  type A with priority 10 is sent with that priority.
\<close>

theorem priority_sent_counterexample:
  "example_a_priority ''type'' = Some (PStr ''A'')
   \<and> create_record quiet_env (Mapping example_a_priority) \<lparr>calls = [], printed = []\<rparr>
       = (\<lparr>calls = [Create [''type'' \<mapsto> PStr ''A'', ''name'' \<mapsto> PStr ''api.example.com'',
                              ''content'' \<mapsto> PStr ''1.2.3.4'', ''ttl'' \<mapsto> PInt 3600,
                              ''proxied'' \<mapsto> PBool False, ''priority'' \<mapsto> PInt 10]],
            printed = []\<rparr>, None)
   \<and> update_record quiet_env (PStr ''r1'') (Mapping example_a_priority)
         \<lparr>calls = [], printed = []\<rparr>
       = (\<lparr>calls = [Update (PStr ''r1'')
                             [''type'' \<mapsto> PStr ''A'', ''name'' \<mapsto> PStr ''api.example.com'',
                              ''content'' \<mapsto> PStr ''1.2.3.4'', ''ttl'' \<mapsto> PInt 3600,
                              ''proxied'' \<mapsto> PBool False, ''priority'' \<mapsto> PInt 10]],
            printed = []\<rparr>, None)"
  by (simp add: create_record_def update_record_def send_def quiet_env_def
        example_a_priority_def example_definition_def dict_item_def dict_get_default_def)

text \<open>
  Claim C7, amended. For every record definition whose type is neither MX nor SRV, the
  priority never affects the Diff Evaluator's verdict. For every record definition that
  has its name, type and content, of whatever type, the data sent to the provider in a
  create or update call has a priority exactly when the definition has one, and then the
  definition's.
\<close>

theorem priority_ignored_in_diff_sent_when_present:
  assumes "d ''type'' = Some t" and "d ''name'' = Some n" and "d ''content'' = Some c"
  shows "(\<not> is_mx_or_srv t \<longrightarrow>
            (\<forall>p q. records_differ (d(''priority'' := p)) (l(''priority'' := q))
                     = records_differ d l))
     \<and> (\<exists>data. data ''priority'' = d ''priority''
           \<and> create_record e (Mapping d) st = send e (Create data) st
           \<and> update_record e record_id (Mapping d) st = send e (Update record_id data) st)"
proof -
  from request_data_priority [OF assms] obtain data where
    "request_data (Mapping d) = Inr data" and "data ''priority'' = d ''priority''"
    by blast
  then have "\<exists>data. data ''priority'' = d ''priority''
           \<and> create_record e (Mapping d) st = send e (Create data) st
           \<and> update_record e record_id (Mapping d) st = send e (Update record_id data) st"
    by (auto simp: create_record_def update_record_def)
  moreover have "\<not> is_mx_or_srv t \<longrightarrow>
            (\<forall>p q. records_differ (d(''priority'' := p)) (l(''priority'' := q))
                     = records_differ d l)"
    using assms(1) by (auto intro: priority_irrelevant)
  ultimately show ?thesis by blast
qed

theorem priority_ignored_in_diff_sent_when_present_witness:
  "records_differ (example_definition(''priority'' := Some (PInt 10)))
       (example_live(''priority'' := Some (PInt 20)))
     = records_differ example_definition example_live
   \<and> (\<exists>data. data ''priority'' = Some (PInt 10)
         \<and> create_record quiet_env (Mapping example_a_priority) \<lparr>calls = [], printed = []\<rparr>
             = send quiet_env (Create data) \<lparr>calls = [], printed = []\<rparr>
         \<and> update_record quiet_env (PStr ''r1'') (Mapping example_a_priority)
               \<lparr>calls = [], printed = []\<rparr>
             = send quiet_env (Update (PStr ''r1'') data) \<lparr>calls = [], printed = []\<rparr>)
   \<and> (\<exists>data. data ''priority'' = None
         \<and> create_record quiet_env (Mapping example_definition) \<lparr>calls = [], printed = []\<rparr>
             = send quiet_env (Create data) \<lparr>calls = [], printed = []\<rparr>
         \<and> update_record quiet_env (PStr ''r1'') (Mapping example_definition)
               \<lparr>calls = [], printed = []\<rparr>
             = send quiet_env (Update (PStr ''r1'') data) \<lparr>calls = [], printed = []\<rparr>)"
proof -
  have d: "example_definition ''type'' = Some (PStr ''A'')"
    "example_definition ''name'' = Some (PStr ''api.example.com'')"
    "example_definition ''content'' = Some (PStr ''1.2.3.4'')"
    "example_definition ''priority'' = None"
    by (simp_all add: example_definition_def)
  have p: "example_a_priority ''type'' = Some (PStr ''A'')"
    "example_a_priority ''name'' = Some (PStr ''api.example.com'')"
    "example_a_priority ''content'' = Some (PStr ''1.2.3.4'')"
    "example_a_priority ''priority'' = Some (PInt 10)"
    by (simp_all add: example_a_priority_def example_definition_def)
  have na: "\<not> is_mx_or_srv (PStr ''A'')"
    by (simp add: is_mx_or_srv_def)
  note D = priority_ignored_in_diff_sent_when_present [OF d(1-3),
      where l = example_live and e = quiet_env and st = "\<lparr>calls = [], printed = []\<rparr>"
        and record_id = "PStr ''r1''"]
  note P = priority_ignored_in_diff_sent_when_present [OF p(1-3),
      where l = example_live and e = quiet_env and st = "\<lparr>calls = [], printed = []\<rparr>"
        and record_id = "PStr ''r1''"]
  from D na have "records_differ (example_definition(''priority'' := Some (PInt 10)))
       (example_live(''priority'' := Some (PInt 20)))
     = records_differ example_definition example_live"
    by blast
  moreover from D have "\<exists>data. data ''priority'' = None
         \<and> create_record quiet_env (Mapping example_definition) \<lparr>calls = [], printed = []\<rparr>
             = send quiet_env (Create data) \<lparr>calls = [], printed = []\<rparr>
         \<and> update_record quiet_env (PStr ''r1'') (Mapping example_definition)
               \<lparr>calls = [], printed = []\<rparr>
             = send quiet_env (Update (PStr ''r1'') data) \<lparr>calls = [], printed = []\<rparr>"
    unfolding d(4) by blast
  moreover from P have "\<exists>data. data ''priority'' = Some (PInt 10)
         \<and> create_record quiet_env (Mapping example_a_priority) \<lparr>calls = [], printed = []\<rparr>
             = send quiet_env (Create data) \<lparr>calls = [], printed = []\<rparr>
         \<and> update_record quiet_env (PStr ''r1'') (Mapping example_a_priority)
               \<lparr>calls = [], printed = []\<rparr>
             = send quiet_env (Update (PStr ''r1'') data) \<lparr>calls = [], printed = []\<rparr>"
    unfolding p(4) by blast
  ultimately show ?thesis
    by blast
qed

end
